theory Spec2Isabelle
  imports Complex_Main
begin

section \<open>Vectors and the orientation converter\<close>

text \<open>
  The notebooks compute with NumPy floating-point arrays. The embedding reads every
  float as a real number, so the results below are statements of exact real arithmetic;
  rounding is not modelled. A 3-component array such as \<^verbatim>\<open>np.r_[ux, uy, uz]\<close> is a
  triple.
\<close>

type_synonym vec3 = "real \<times> real \<times> real"

definition x_of :: "vec3 \<Rightarrow> real" where
  "x_of p = fst p"

definition y_of :: "vec3 \<Rightarrow> real" where
  "y_of p = fst (snd p)"

definition z_of :: "vec3 \<Rightarrow> real" where
  "z_of p = snd (snd p)"

text \<open>The Euclidean norm of a 3-vector.\<close>

definition euclidean_norm :: "vec3 \<Rightarrow> real" where
  "euclidean_norm p = sqrt ((x_of p)\<^sup>2 + (y_of p)\<^sup>2 + (z_of p)\<^sup>2)"

text \<open>
  \<^verbatim>\<open>
  def id_to_cartesian(inclination, declination):
      ux = np.cos(inclination/180.*np.pi)*np.sin(declination/180.*np.pi)
      uy = np.cos(inclination/180.*np.pi)*np.cos(declination/180.*np.pi)
      uz = -np.sin(inclination/180.*np.pi)
      return np.r_[ux, uy, uz]
  \<close>
\<close>

definition id_to_cartesian :: "real \<Rightarrow> real \<Rightarrow> vec3" where
  "id_to_cartesian inclination declination =
     (let ux = cos (inclination / 180 * pi) * sin (declination / 180 * pi);
          uy = cos (inclination / 180 * pi) * cos (declination / 180 * pi);
          uz = - sin (inclination / 180 * pi)
      in (ux, uy, uz))"

text \<open>
  The specification's reading of the converter: an angle in degrees is first turned
  into radians (a full turn of 360 degrees is \<open>2 * pi\<close>), and the three formulas are
  applied to the radian angles.
\<close>

definition radians :: "real \<Rightarrow> real" where
  "radians deg = deg * (2 * pi) / 360"

definition id_to_cartesian_spec :: "real \<Rightarrow> real \<Rightarrow> vec3" where
  "id_to_cartesian_spec inclination declination =
     (cos (radians inclination) * sin (radians declination),
      cos (radians inclination) * cos (radians declination),
      - sin (radians inclination))"

section \<open>Two-dimensional arrays and reshaping\<close>

text \<open>
  A two-dimensional NumPy array is its shape together with its rows. \<open>reshape\<close> is
  \<^verbatim>\<open>ndarray.reshape(n, m, order=...)\<close> on a one-dimensional array: with order \<^verbatim>\<open>'C'\<close>
  the last index varies fastest (entry \<open>(i, j)\<close> is element \<open>i * m + j\<close>), with order
  \<^verbatim>\<open>'F'\<close> the first index does (entry \<open>(i, j)\<close> is element \<open>i + j * n\<close>). NumPy raises
  \<^verbatim>\<open>ValueError\<close> when the array does not have \<open>n * m\<close> elements; the model returns
  \<open>None\<close> there.
\<close>

datatype mem_order = C_order | F_order

record 'a array2 =
  nrows :: nat
  ncols :: nat
  cells :: "'a list list"

definition well_shaped :: "'a array2 \<Rightarrow> bool" where
  "well_shaped a = (length (cells a) = nrows a \<and> list_all (\<lambda>r. length r = ncols a) (cells a))"

definition flat_index :: "mem_order \<Rightarrow> nat \<Rightarrow> nat \<Rightarrow> nat \<Rightarrow> nat \<Rightarrow> nat" where
  "flat_index ord n m i j = (case ord of C_order \<Rightarrow> i * m + j | F_order \<Rightarrow> i + j * n)"

definition reshape :: "'a list \<Rightarrow> nat \<Rightarrow> nat \<Rightarrow> mem_order \<Rightarrow> 'a array2 option" where
  "reshape v n m ord =
     (if length v \<noteq> n * m then None
      else Some \<lparr>nrows = n, ncols = m,
                 cells = map (\<lambda>i. map (\<lambda>j. v ! flat_index ord n m i j) [0..<m]) [0..<n]\<rparr>)"

text \<open>The attribute \<^verbatim>\<open>.T\<close>: entry \<open>(j, i)\<close> of the result is entry \<open>(i, j)\<close> of the array.\<close>

definition transpose_T :: "'a array2 \<Rightarrow> 'a array2" where
  "transpose_T a =
     \<lparr>nrows = ncols a, ncols = nrows a,
      cells = map (\<lambda>j. map (\<lambda>i. cells a ! i ! j) [0..<nrows a]) [0..<ncols a]\<rparr>"

text \<open>
  \<^verbatim>\<open>ndarray.flatten(order=...)\<close>: row after row for \<^verbatim>\<open>'C'\<close>, column after column for
  \<^verbatim>\<open>'F'\<close>. The notebooks never call it themselves (the grid comes flattened from the
  library); it is the flattening that a reshape of the same order undoes.
\<close>

definition flatten :: "'a array2 \<Rightarrow> mem_order \<Rightarrow> 'a list" where
  "flatten a ord =
     (case ord of C_order \<Rightarrow> concat (cells a) | F_order \<Rightarrow> concat (cells (transpose_T a)))"

section \<open>The renderers\<close>

text \<open>
  \<^verbatim>\<open>spatial.vector_magnitude\<close> of the library: the Euclidean norm of every row of an
  array of 3-vectors.
\<close>

definition vector_magnitude :: "vec3 list \<Rightarrow> real list" where
  "vector_magnitude v = map euclidean_norm v"

text \<open>
  The vector-potential notebook:
  \<^verbatim>\<open>
  def plot_amplitude(ax, x, y, v):
      v = spatial.vector_magnitude(v)
      plt.colorbar(
          ax.pcolormesh(
              x, y, v.reshape(len(x), len(y), order='C'), norm=LogNorm()
          ), ax=ax
      )

  def plot_streamlines(ax, x, y, v):
      vx = v[:, 0].reshape(len(x), len(y), order='F')
      vy = v[:, 1].reshape(len(x), len(y), order='F')
      ax.streamplot(x, y, vx.T, vy.T, color='k')
  \<close>
  Each renderer is modelled by the arrays it hands to the plotting call;
  \<open>amplitude_mesh\<close> and \<open>streamline_mesh\<close> are what the two renderers do to one flat
  array of samples.
\<close>

definition amplitude_mesh :: "real list \<Rightarrow> real list \<Rightarrow> 'a list \<Rightarrow> 'a array2 option" where
  "amplitude_mesh x y f = reshape f (length x) (length y) C_order"

definition streamline_mesh :: "real list \<Rightarrow> real list \<Rightarrow> 'a list \<Rightarrow> 'a array2 option" where
  "streamline_mesh x y f = map_option transpose_T (reshape f (length x) (length y) F_order)"

definition plot_amplitude :: "real list \<Rightarrow> real list \<Rightarrow> vec3 list \<Rightarrow> real array2 option" where
  "plot_amplitude x y v = amplitude_mesh x y (vector_magnitude v)"

definition plot_streamlines ::
  "real list \<Rightarrow> real list \<Rightarrow> vec3 list \<Rightarrow> (real array2 \<times> real array2) option" where
  "plot_streamlines x y v =
     (case (streamline_mesh x y (map x_of v), streamline_mesh x y (map y_of v)) of
        (Some vxT, Some vyT) \<Rightarrow> Some (vxT, vyT)
      | _ \<Rightarrow> None)"

text \<open>
  The total-field notebook has a renderer of its own, which takes the scalar samples as
  they are:
  \<^verbatim>\<open>
  def plot_amplitude(ax, x, y, v):
      plt.colorbar(
          ax.pcolormesh(
              x, y, v.reshape(len(x), len(y), order='F')
          ), ax=ax
      )
  \<close>
\<close>

definition plot_amplitude_total_field :: "real list \<Rightarrow> real list \<Rightarrow> 'a list \<Rightarrow> 'a array2 option" where
  "plot_amplitude_total_field x y v = reshape v (length x) (length y) F_order"

section \<open>Grid construction\<close>

text \<open>
  \<^verbatim>\<open>np.linspace(start, stop, num)\<close>: \<open>num\<close> evenly spaced samples from \<open>start\<close> to
  \<open>stop\<close>, both included; a single sample is \<open>start\<close>.
\<close>

definition linspace :: "real \<Rightarrow> real \<Rightarrow> nat \<Rightarrow> real list" where
  "linspace start stop num =
     (if num \<le> 1 then replicate num start
      else map (\<lambda>i. start + real i * ((stop - start) / real (num - 1))) [0..<num])"

text \<open>
  Modelled from the spec: \<^verbatim>\<open>utils.ndgrid\<close> belongs to the external library and is not
  among the sources. The specification describes its result as the Cartesian product of
  the axes with the fixed third coordinate, as a sequence of 3D points. The order chosen
  here lets the first axis vary fastest, as the library does; the properties below do not
  depend on the order.
\<close>

definition ndgrid :: "real list \<Rightarrow> real list \<Rightarrow> real list \<Rightarrow> vec3 list" where
  "ndgrid x y z = concat (map (\<lambda>zk. concat (map (\<lambda>yj. map (\<lambda>xi. (xi, yj, zk)) x) y)) z)"

section \<open>The pipeline of the vector-potential notebook\<close>

text \<open>
  The keyword arguments of \<open>plot_fields\<close>, which are the interaction controls. The
  defaults of the signature are
  \<^verbatim>\<open>
  def plot_fields(moment = 1, current = 1, radius = 20,
                  location_x=0., location_y=0., location_z=0.,
                  orientation_x=0., orientation_y=0., orientation_z=1.):
  \<close>
\<close>

record controls =
  moment :: int
  current :: int
  radius :: real
  location_x :: real
  location_y :: real
  location_z :: real
  orientation_x :: real
  orientation_y :: real
  orientation_z :: real

definition default_controls :: controls where
  "default_controls =
     \<lparr>moment = 1, current = 1, radius = 20,
      location_x = 0, location_y = 0, location_z = 0,
      orientation_x = 0, orientation_y = 0, orientation_z = 1\<rparr>"

text \<open>
  The orientation is a mutable array of three floats. Dividing a float by zero does not
  raise in NumPy; \<open>0 / 0\<close> is the value \<^verbatim>\<open>nan\<close>, which the model keeps apart from the
  numbers.
\<close>

datatype float64 = Num real | NaN

type_synonym array3 = "float64 \<times> float64 \<times> float64"

text \<open>\<^verbatim>\<open>np.r_[a, b, c]\<close>: a new array holding the three numbers.\<close>

definition np_r :: "real \<Rightarrow> real \<Rightarrow> real \<Rightarrow> array3" where
  "np_r a b c = (Num a, Num b, Num c)"

text \<open>
  The orientation setter of the library, which both source constructors run on their
  \<^verbatim>\<open>orientation\<close> argument. It is not among the sources; what matters here is its
  effect on the caller's array. For a float array \<^verbatim>\<open>np.asarray(var, dtype=float)\<close> is
  the caller's array itself, and the setter then makes it a unit vector in place,
  \<^verbatim>\<open>var /= np.linalg.norm(var)\<close>, and keeps it as the source's orientation.
  \<open>set_orientation\<close> maps the contents of the array before the call to its contents
  after. The norm is 0 only when all three components are 0, and every quotient is
  then \<open>0 / 0\<close>; a \<^verbatim>\<open>nan\<close> component makes the norm, and with it every quotient,
  \<^verbatim>\<open>nan\<close>.
\<close>

fun set_orientation :: "array3 \<Rightarrow> array3" where
  "set_orientation (Num a, Num b, Num c) =
     (let n = sqrt (a\<^sup>2 + b\<^sup>2 + c\<^sup>2)
      in if n = 0 then (NaN, NaN, NaN) else (Num (a / n), Num (b / n), Num (c / n)))"
| "set_orientation _ = (NaN, NaN, NaN)"

text \<open>
  The keyword arguments of the two source constructors of the library. The same records
  describe a constructed source by the values of its attributes.
\<close>

record MagneticDipoleWholeSpace =
  dipole_mu :: real
  dipole_location :: vec3
  dipole_orientation :: array3
  dipole_moment :: int

record CircularLoopWholeSpace =
  loop_mu :: real
  loop_location :: vec3
  loop_orientation :: array3
  loop_current :: int
  loop_radius :: real

text \<open>A call of a \<^verbatim>\<open>vector_potential\<close> method: the source it is called on and the points.\<close>

datatype evaluator_call =
  Dipole_vector_potential MagneticDipoleWholeSpace "vec3 list"
| Loop_vector_potential CircularLoopWholeSpace "vec3 list"

text \<open>
  One run of \<open>plot_fields\<close>: the keyword arguments each constructor receives, with the
  contents the orientation array has at that call; the two sources as they are when the
  vector potential is evaluated; the evaluation points; the calls of the evaluator in
  order; and the arrays handed to the plotting calls of the two panels.
\<close>

record run =
  dipole_args :: MagneticDipoleWholeSpace
  loop_args :: CircularLoopWholeSpace
  dipole :: MagneticDipoleWholeSpace
  loop :: CircularLoopWholeSpace
  xyz :: "vec3 list"
  evaluator_calls :: "evaluator_call list"
  ax0_amplitude :: "real array2 option"
  ax0_streamlines :: "(real array2 \<times> real array2) option"
  ax1_amplitude :: "real array2 option"
  ax1_streamlines :: "(real array2 \<times> real array2) option"

text \<open>
  \<^verbatim>\<open>
  def plot_fields(moment = 1, ..., orientation_z=1.):
      mu = mu_0
      location=np.r_[location_x, location_y, location_z]
      orientation=np.r_[orientation_x, orientation_y, orientation_z]
      dipole = static.MagneticDipoleWholeSpace(
          mu=mu, location=location,
          orientation=orientation , moment=moment
      )
      loop = static.CircularLoopWholeSpace(
          mu=mu, location=location,
          orientation=orientation, current=current,
          radius=radius
      )
      x = np.linspace(-50, 50, 100)
      y = np.linspace(-50, 50, 100)
      xyz = utils.ndgrid([x, y, np.r_[0]])
      a_dipole = dipole.vector_potential(xyz)
      a_loop = loop.vector_potential(xyz)
      plot_amplitude(ax[0], x, y, a_dipole)
      plot_streamlines(ax[0], x, y, a_dipole)
      plot_amplitude(ax[1], x, y, a_loop)
      plot_streamlines(ax[1], x, y, a_loop)
  \<close>
  One array \<^verbatim>\<open>orientation\<close> is built and the same object is passed to the dipole
  constructor and then to the loop constructor. Each constructor normalises it in place,
  so the loop constructor receives what the dipole constructor left in it, and both
  sources hold the array with the contents it has after the second constructor.
  \<open>orientation\<close>, \<open>orientation'\<close> and \<open>orientation''\<close> are these three successive
  contents of the one array. The location array is shared as well, but the library
  stores it unchanged. The constant \<^verbatim>\<open>mu_0\<close> of SciPy and the two
  \<^verbatim>\<open>vector_potential\<close> methods of the library are parameters of the model.
\<close>

definition plot_fields ::
  "real \<Rightarrow> (MagneticDipoleWholeSpace \<Rightarrow> vec3 list \<Rightarrow> vec3 list) \<Rightarrow>
   (CircularLoopWholeSpace \<Rightarrow> vec3 list \<Rightarrow> vec3 list) \<Rightarrow> controls \<Rightarrow> run" where
  "plot_fields mu_0 dipole_vector_potential loop_vector_potential c =
     (let mu = mu_0;
          location = (location_x c, location_y c, location_z c);
          orientation = np_r (orientation_x c) (orientation_y c) (orientation_z c);
          dipole_args = \<lparr>dipole_mu = mu, dipole_location = location,
                         dipole_orientation = orientation, dipole_moment = moment c\<rparr>;
          orientation' = set_orientation orientation;
          loop_args = \<lparr>loop_mu = mu, loop_location = location,
                       loop_orientation = orientation', loop_current = current c,
                       loop_radius = radius c\<rparr>;
          orientation'' = set_orientation orientation';
          dipole = dipole_args\<lparr>dipole_orientation := orientation''\<rparr>;
          loop = loop_args\<lparr>loop_orientation := orientation''\<rparr>;
          x = linspace (-50) 50 100;
          y = linspace (-50) 50 100;
          xyz = ndgrid x y [0];
          a_dipole = dipole_vector_potential dipole xyz;
          a_loop = loop_vector_potential loop xyz
      in \<lparr>dipole_args = dipole_args, loop_args = loop_args,
          dipole = dipole, loop = loop, xyz = xyz,
          evaluator_calls =
            [Dipole_vector_potential dipole xyz, Loop_vector_potential loop xyz],
          ax0_amplitude = plot_amplitude x y a_dipole,
          ax0_streamlines = plot_streamlines x y a_dipole,
          ax1_amplitude = plot_amplitude x y a_loop,
          ax1_streamlines = plot_streamlines x y a_loop\<rparr>)"

section \<open>The interaction controls\<close>

text \<open>
  \<^verbatim>\<open>interactive\<close> of ipywidgets builds one slider per keyword argument from an
  abbreviation: a default value of the signature, a pair \<open>(min, max)\<close> or a triple
  \<open>(min, max, step)\<close>. An integer value \<open>v\<close> alone gives an integer slider over
  \<open>[-v, 3 * v]\<close> for positive \<open>v\<close>, \<open>[0, 1]\<close> for zero and \<open>[3 * v, -v]\<close> for negative
  \<open>v\<close>, with step 1; a pair of floats gives a float slider with the default step 0.1.
  A step that is not positive, or a minimum above the maximum, is refused with
  \<^verbatim>\<open>ValueError\<close> (\<open>None\<close> here). The notebook's stored output shows the first rule at
  work: \<^verbatim>\<open>IntSlider(value=1, description='moment', max=3, min=-1)\<close>.
\<close>

datatype abbrev = Single_int int | Range real real | Range_step real real real

record slider =
  slider_min :: real
  slider_max :: real
  slider_step :: real

fun widget_from_abbrev :: "abbrev \<Rightarrow> slider option" where
  "widget_from_abbrev (Single_int v) =
     (let vrange = (if v = 0 then (v, v + 1) else if v > 0 then (- v, 3 * v) else (3 * v, - v))
      in Some \<lparr>slider_min = of_int (fst vrange), slider_max = of_int (snd vrange),
               slider_step = 1\<rparr>)"
| "widget_from_abbrev (Range lo hi) =
     (if lo \<le> hi then Some \<lparr>slider_min = lo, slider_max = hi, slider_step = 1 / 10\<rparr>
      else None)"
| "widget_from_abbrev (Range_step lo hi st) =
     (if st \<le> 0 then None
      else if lo \<le> hi then Some \<lparr>slider_min = lo, slider_max = hi, slider_step = st\<rparr>
      else None)"

definition interactive :: "(string \<times> abbrev) list \<Rightarrow> (string \<times> slider option) list" where
  "interactive kwargs = map (\<lambda>(name, a). (name, widget_from_abbrev a)) kwargs"

text \<open>
  The vector-potential notebook:
  \<^verbatim>\<open>
  interactive(plot_fields, radius=(1.,40.,1.), location_x=(-40.,40.,1.),
              location_y=(-40.,40.,1.), location_z=(-40.,40.,1.),
              orientation_x=(0.,1.,0.1), orientation_y=(0.,1.,0.1),
              orientation_z=(0.,1.,0.1))
  \<close>
  \<open>moment\<close> and \<open>current\<close> are not named in the call and take their abbreviation from
  the default 1 of the signature.
\<close>

definition vector_potential_app :: "(string \<times> slider option) list" where
  "vector_potential_app = interactive
     [(''moment'', Single_int 1), (''current'', Single_int 1),
      (''radius'', Range_step 1 40 1),
      (''location_x'', Range_step (-40) 40 1),
      (''location_y'', Range_step (-40) 40 1),
      (''location_z'', Range_step (-40) 40 1),
      (''orientation_x'', Range_step 0 1 (1 / 10)),
      (''orientation_y'', Range_step 0 1 (1 / 10)),
      (''orientation_z'', Range_step 0 1 (1 / 10))]"

text \<open>
  The total-field notebook:
  \<^verbatim>\<open>interactive(plot_fields, inclination=(0.,67.,1.), declination=(0., 90.))\<close>
\<close>

definition total_field_app :: "(string \<times> slider option) list" where
  "total_field_app = interactive
     [(''inclination'', Range_step 0 67 1), (''declination'', Range 0 90)]"

text \<open>
  A slider offers the values from its minimum to its maximum that lie a whole number of
  steps above the minimum.
\<close>

definition slider_offers :: "slider \<Rightarrow> real \<Rightarrow> bool" where
  "slider_offers s v =
     (slider_min s \<le> v \<and> v \<le> slider_max s
      \<and> (v - slider_min s) / slider_step s = of_int \<lfloor>(v - slider_min s) / slider_step s\<rfloor>)"

definition control_values :: "controls \<Rightarrow> (string \<times> real) list" where
  "control_values c =
     [(''moment'', of_int (moment c)), (''current'', of_int (current c)),
      (''radius'', radius c),
      (''location_x'', location_x c), (''location_y'', location_y c),
      (''location_z'', location_z c),
      (''orientation_x'', orientation_x c), (''orientation_y'', orientation_y c),
      (''orientation_z'', orientation_z c)]"

text \<open>A setting of the controls is admissible when every slider of the app offers its value.\<close>

definition admissible :: "controls \<Rightarrow> bool" where
  "admissible c =
     list_all (\<lambda>(name, v). case map_of vector_potential_app name of
                              Some (Some s) \<Rightarrow> slider_offers s v
                            | _ \<Rightarrow> False)
       (control_values c)"

section \<open>Properties of the orientation converter\<close>

lemma radians_eq: "radians deg = deg / 180 * pi"
  by (simp add: radians_def)

text \<open>
  Claim C1. For every inclination and declination in degrees, \<open>id_to_cartesian\<close>
  returns the vector (cos i * sin d, cos i * cos d, - sin i), where i and d are the
  two angles converted from degrees to radians.
\<close>

theorem id_to_cartesian_formula:
  "id_to_cartesian inclination declination = id_to_cartesian_spec inclination declination"
  by (simp add: id_to_cartesian_def id_to_cartesian_spec_def radians_eq)

lemma unit_sum_squares:
  fixes a b :: real
  shows "(cos a * sin b)\<^sup>2 + (cos a * cos b)\<^sup>2 + (sin a)\<^sup>2 = 1"
proof -
  have "(cos a * sin b)\<^sup>2 + (cos a * cos b)\<^sup>2 = (cos a)\<^sup>2 * ((sin b)\<^sup>2 + (cos b)\<^sup>2)"
    by (simp only: power_mult_distrib distrib_left)
  also have "\<dots> = (cos a)\<^sup>2"
    by (simp only: sin_cos_squared_add mult_1_right)
  finally show ?thesis
    by (simp add: add.commute)
qed

text \<open>
  Claim C4. For every pair of angles, inside the conventional ranges or not, the vector
  returned by \<open>id_to_cartesian\<close> has Euclidean norm 1.
\<close>

theorem id_to_cartesian_unit_norm:
  "euclidean_norm (id_to_cartesian inclination declination) = 1"
  by (simp add: euclidean_norm_def id_to_cartesian_def x_of_def y_of_def z_of_def unit_sum_squares)

text \<open>
  Claim C7. At inclination 0 and declination 0 the converter returns (0, 1, 0); at
  inclination 90 and declination 0 it returns (0, 0, -1).
\<close>

theorem id_to_cartesian_reference_directions:
  "id_to_cartesian 0 0 = (0, 1, 0) \<and> id_to_cartesian 90 0 = (0, 0, -1)"
  by (simp add: id_to_cartesian_def)

section \<open>Reshaping: transposition and round trips\<close>

text \<open>
  Transposing a column-major reshape gives the row-major reshape into the swapped
  shape; both fail together when the number of elements is wrong.
\<close>

lemma transpose_reshape_F:
  "map_option transpose_T (reshape v n m F_order) = reshape v m n C_order"
proof (cases "length v = n * m")
  case True
  have "map (\<lambda>j. map (\<lambda>i. map (\<lambda>i. map (\<lambda>j. v ! (i + j * n)) [0..<m]) [0..<n] ! i ! j) [0..<n]) [0..<m]
      = map (\<lambda>j. map (\<lambda>i. v ! (j * n + i)) [0..<n]) [0..<m]"
    by (auto simp: add.commute)
  with True show ?thesis
    by (simp add: reshape_def transpose_T_def flat_index_def mult.commute)
next
  case False
  then show ?thesis
    by (simp add: reshape_def mult.commute)
qed

lemma length_concat_uniform:
  "list_all (\<lambda>r. length r = m) rows \<Longrightarrow> length (concat rows) = length rows * m"
  by (induction rows) auto

lemma nth_concat_uniform:
  "list_all (\<lambda>r. length r = m) rows \<Longrightarrow> i < length rows \<Longrightarrow> j < m \<Longrightarrow>
   concat rows ! (i * m + j) = rows ! i ! j"
proof (induction rows arbitrary: i)
  case Nil
  then show ?case by simp
next
  case (Cons r rows)
  show ?case
  proof (cases i)
    case 0
    with Cons.prems show ?thesis by (simp add: nth_append)
  next
    case (Suc k)
    with Cons.prems have "concat rows ! (k * m + j) = rows ! k ! j"
      by (intro Cons.IH) auto
    with Suc Cons.prems show ?thesis
      by (simp add: nth_append add.assoc)
  qed
qed

lemma rows_from_cells:
  assumes "length rows = n" "list_all (\<lambda>r. length r = m) rows"
  shows "map (\<lambda>i. map (\<lambda>j. rows ! i ! j) [0..<m]) [0..<n] = rows"
proof (rule nth_equalityI)
  show "length (map (\<lambda>i. map (\<lambda>j. rows ! i ! j) [0..<m]) [0..<n]) = length rows"
    using assms by simp
next
  fix i assume "i < length (map (\<lambda>i. map (\<lambda>j. rows ! i ! j) [0..<m]) [0..<n])"
  then have i: "i < n" by simp
  with assms have "length (rows ! i) = m"
    by (simp add: list_all_length)
  then have "map (\<lambda>j. rows ! i ! j) [0..<m] = rows ! i"
    by (metis map_nth)
  with i show "map (\<lambda>i. map (\<lambda>j. rows ! i ! j) [0..<m]) [0..<n] ! i = rows ! i"
    by simp
qed

lemma reshape_flatten_C:
  assumes "well_shaped a"
  shows "reshape (flatten a C_order) (nrows a) (ncols a) C_order = Some a"
proof -
  from assms have len: "length (cells a) = nrows a"
    and rows: "list_all (\<lambda>r. length r = ncols a) (cells a)"
    by (simp_all add: well_shaped_def)
  have "map (\<lambda>i. map (\<lambda>j. concat (cells a) ! (i * ncols a + j)) [0..<ncols a]) [0..<nrows a]
      = map (\<lambda>i. map (\<lambda>j. cells a ! i ! j) [0..<ncols a]) [0..<nrows a]"
    using len rows by (auto simp: nth_concat_uniform)
  also have "\<dots> = cells a"
    using len rows by (rule rows_from_cells)
  finally show ?thesis
    using len rows by (simp add: reshape_def flatten_def flat_index_def length_concat_uniform)
qed

lemma reshape_flatten_F:
  assumes "well_shaped a"
  shows "reshape (flatten a F_order) (nrows a) (ncols a) F_order = Some a"
proof -
  let ?n = "nrows a" and ?m = "ncols a"
  let ?cols = "map (\<lambda>j. map (\<lambda>i. cells a ! i ! j) [0..<?n]) [0..<?m]"
  from assms have len: "length (cells a) = ?n"
    and rows: "list_all (\<lambda>r. length r = ?m) (cells a)"
    by (simp_all add: well_shaped_def)
  have cols: "list_all (\<lambda>c. length c = ?n) ?cols"
    by (simp add: list_all_iff)
  have entry: "concat ?cols ! (i + j * ?n) = cells a ! i ! j" if "i < ?n" "j < ?m" for i j
  proof -
    have "concat ?cols ! (j * ?n + i) = ?cols ! j ! i"
      using cols that by (intro nth_concat_uniform) simp_all
    with that show ?thesis
      by (simp add: add.commute)
  qed
  have "map (\<lambda>i. map (\<lambda>j. concat ?cols ! (i + j * ?n)) [0..<?m]) [0..<?n]
      = map (\<lambda>i. map (\<lambda>j. cells a ! i ! j) [0..<?m]) [0..<?n]"
    by (simp add: entry)
  also have "\<dots> = cells a"
    using len rows by (rule rows_from_cells)
  finally have "map (\<lambda>i. map (\<lambda>j. concat ?cols ! (i + j * ?n)) [0..<?m]) [0..<?n] = cells a" .
  moreover have "length (concat ?cols) = ?n * ?m"
    using length_concat_uniform [OF cols] by (simp add: mult.commute)
  ultimately show ?thesis
    by (simp add: reshape_def flatten_def flat_index_def transpose_T_def)
qed

text \<open>
  Claim C5. For every 2D grid of shape (len(x), len(y)), flattening it and reshaping the
  flat result back into that shape with the matching order gives the original grid: with
  order C for the amplitude renderer of the vector-potential notebook, with order F for
  the one of the total-field notebook.
\<close>

theorem amplitude_reshape_round_trip:
  assumes "well_shaped g" and "nrows g = length x" and "ncols g = length y"
  shows "amplitude_mesh x y (flatten g C_order) = Some g
       \<and> plot_amplitude_total_field x y (flatten g F_order) = Some g"
  using assms reshape_flatten_C [of g] reshape_flatten_F [of g]
  by (simp add: amplitude_mesh_def plot_amplitude_total_field_def)

theorem amplitude_reshape_round_trip_witness:
  "well_shaped \<lparr>nrows = 2, ncols = 3, cells = [[1, 2, 3], [4, 5, 6::int]]\<rparr>
   \<and> flatten \<lparr>nrows = 2, ncols = 3, cells = [[1, 2, 3], [4, 5, 6::int]]\<rparr> C_order = [1, 2, 3, 4, 5, 6]
   \<and> flatten \<lparr>nrows = 2, ncols = 3, cells = [[1, 2, 3], [4, 5, 6::int]]\<rparr> F_order = [1, 4, 2, 5, 3, 6]
   \<and> amplitude_mesh [0, 1] [0, 1, 2] [1, 2, 3, 4, 5, 6::int]
       = Some \<lparr>nrows = 2, ncols = 3, cells = [[1, 2, 3], [4, 5, 6]]\<rparr>
   \<and> plot_amplitude_total_field [0, 1] [0, 1, 2] [1, 4, 2, 5, 3, 6::int]
       = Some \<lparr>nrows = 2, ncols = 3, cells = [[1, 2, 3], [4, 5, 6]]\<rparr>"
proof -
  let ?g = "\<lparr>nrows = 2, ncols = 3, cells = [[1, 2, 3], [4, 5, 6::int]]\<rparr>"
  have ws: "well_shaped ?g"
    by (simp add: well_shaped_def)
  have fc: "flatten ?g C_order = [1, 2, 3, 4, 5, 6]"
    by (simp add: flatten_def)
  have ff: "flatten ?g F_order = [1, 4, 2, 5, 3, 6]"
    by (simp add: flatten_def transpose_T_def upt_rec)
  have "nrows ?g = length [0, 1::real]" and "ncols ?g = length [0, 1, 2::real]"
    by simp_all
  from amplitude_reshape_round_trip [OF ws this] ws fc ff show ?thesis
    by simp
qed

text \<open>
  Claim C3. For every flat array v of length len(x) * len(y), reshaping v into shape
  (len(x), len(y)) with order F and transposing the result, as the streamline renderer
  does, gives the same array as reshaping v into shape (len(y), len(x)) with order C,
  and that reshape succeeds.
\<close>

theorem streamline_transpose_is_row_major:
  assumes "length v = length x * length y"
  shows "map_option transpose_T (reshape v (length x) (length y) F_order)
           = reshape v (length y) (length x) C_order
       \<and> streamline_mesh x y v = reshape v (length y) (length x) C_order
       \<and> reshape v (length y) (length x) C_order \<noteq> None"
  using assms transpose_reshape_F [of v "length x" "length y"]
  by (simp add: streamline_mesh_def reshape_def mult.commute)

theorem streamline_transpose_is_row_major_witness:
  "length [1, 2, 3, 4, 5, 6::int] = length [0, 1::real] * length [0, 1, 2::real]
   \<and> streamline_mesh [0, 1] [0, 1, 2] [1, 2, 3, 4, 5, 6::int]
       = Some \<lparr>nrows = 3, ncols = 2, cells = [[1, 2], [3, 4], [5, 6]]\<rparr>"
proof -
  have len: "length [1, 2, 3, 4, 5, 6::int] = length [0, 1::real] * length [0, 1, 2::real]"
    by simp
  have "reshape [1, 2, 3, 4, 5, 6::int] (length [0, 1, 2::real]) (length [0, 1::real]) C_order
       = Some \<lparr>nrows = 3, ncols = 2, cells = [[1, 2], [3, 4], [5, 6]]\<rparr>"
    by (simp add: reshape_def flat_index_def upt_rec)
  with streamline_transpose_is_row_major [OF len] len show ?thesis
    by (simp only:)
qed

section \<open>The two renderers on one grid\<close>

lemma length_linspace: "length (linspace start stop num) = num"
  by (simp add: linspace_def)

lemma meshes_agree_on_square:
  "length x = length y \<Longrightarrow> amplitude_mesh x y f = streamline_mesh x y f"
  using transpose_reshape_F [of f "length y" "length y"]
  by (simp add: amplitude_mesh_def streamline_mesh_def)

text \<open>
  Off the square grids the two arrays cannot be equal, since their shapes are
  (len(x), len(y)) and (len(y), len(x)); \<open>plot_fields\<close> never builds such a grid.
\<close>

lemma meshes_differ_off_square:
  assumes "length x \<noteq> length y" and "length f = length x * length y"
  shows "amplitude_mesh x y f \<noteq> streamline_mesh x y f"
proof
  assume "amplitude_mesh x y f = streamline_mesh x y f"
  then have "map_option nrows (amplitude_mesh x y f) = map_option nrows (streamline_mesh x y f)"
    by simp
  with assms show False
    by (simp add: amplitude_mesh_def streamline_mesh_def reshape_def transpose_T_def)
qed

lemma reshape_orders_differ:
  assumes "2 \<le> n"
  shows "reshape [0..<n * n] n n C_order \<noteq> reshape [0..<n * n] n n F_order"
proof
  let ?g = "[0..<n * n]"
  assume "reshape ?g n n C_order = reshape ?g n n F_order"
  then have "map (\<lambda>i. map (\<lambda>j. ?g ! (i * n + j)) [0..<n]) [0..<n]
           = map (\<lambda>i. map (\<lambda>j. ?g ! (i + j * n)) [0..<n]) [0..<n]"
    by (simp add: reshape_def flat_index_def)
  then have "map (\<lambda>i. map (\<lambda>j. ?g ! (i * n + j)) [0..<n]) [0..<n] ! 0 ! 1
           = map (\<lambda>i. map (\<lambda>j. ?g ! (i + j * n)) [0..<n]) [0..<n] ! 0 ! 1"
    by (rule arg_cong [where f = "\<lambda>rows. rows ! 0 ! 1"])
  moreover have "n * 2 \<le> n * n"
    using assms by (rule mult_le_mono2)
  then have "1 < n * n" and "n < n * n"
    using assms by linarith+
  ultimately have "(1::nat) = n"
    using assms by simp
  with assms show False by simp
qed

text \<open>
  Claim C2, as stated, fails on the grid of the notebook. The axes \<open>x\<close> and \<open>y\<close> of
  \<open>plot_fields\<close> both have 100 samples, and there the array the amplitude renderer
  passes to \<^verbatim>\<open>pcolormesh\<close> and the array the streamline renderer passes to
  \<^verbatim>\<open>streamplot\<close> are equal for every flat array of samples: no flat array tells them
  apart.
\<close>

theorem renderers_same_mesh_counterexample:
  "\<not> (\<exists>f::real list. length f = length (linspace (-50) 50 100) * length (linspace (-50) 50 100)
        \<and> amplitude_mesh (linspace (-50) 50 100) (linspace (-50) 50 100) f
          \<noteq> streamline_mesh (linspace (-50) 50 100) (linspace (-50) 50 100) f)"
  by (simp add: meshes_agree_on_square length_linspace)

text \<open>
  Claim C2, amended. On a grid with len(x) = len(y) of at least 2, as the notebook's,
  the two \<open>reshape\<close> calls do give different arrays for some flat array of length
  len(x) * len(y) (order C in the amplitude renderer, order F in the streamline
  renderer); but the streamline renderer transposes before plotting, so the arrays
  passed to the two plotting calls are equal for every flat array.
\<close>

theorem renderers_differ_only_before_transpose:
  assumes "length x = length y" and "2 \<le> length x"
  shows "(\<exists>g::nat list. length g = length x * length y
            \<and> reshape g (length x) (length y) C_order \<noteq> reshape g (length x) (length y) F_order)
       \<and> amplitude_mesh x y f = streamline_mesh x y f"
proof -
  have "length [0..<length x * length y] = length x * length y"
    by simp
  moreover have "reshape [0..<length x * length y] (length x) (length y) C_order
               \<noteq> reshape [0..<length x * length y] (length x) (length y) F_order"
    using assms reshape_orders_differ [of "length y"] by simp
  ultimately have "\<exists>g::nat list. length g = length x * length y
            \<and> reshape g (length x) (length y) C_order \<noteq> reshape g (length x) (length y) F_order"
    by blast
  with assms meshes_agree_on_square [of x y f] show ?thesis
    by simp
qed

theorem renderers_differ_only_before_transpose_witness:
  "length (linspace (-50) 50 100) = length (linspace (-50) 50 100)
   \<and> 2 \<le> length (linspace (-50) 50 100)
   \<and> amplitude_mesh (linspace (-50) 50 100) (linspace (-50) 50 100) (replicate 10000 (1::real))
       = streamline_mesh (linspace (-50) 50 100) (linspace (-50) 50 100) (replicate 10000 1)"
proof -
  have two: "2 \<le> length (linspace (-50) 50 100)"
    by (simp add: length_linspace)
  from renderers_differ_only_before_transpose
         [OF refl two, where f = "replicate 10000 (1::real)"] two
  show ?thesis
    by simp
qed

section \<open>The pipeline\<close>

lemma length_ndgrid: "length (ndgrid x y z) = length x * length y * length z"
proof -
  have inner: "length (concat (map (\<lambda>yj. map (\<lambda>xi. (xi, yj, zk)) x) y)) = length x * length y"
    for zk :: real
    by (induction y) simp_all
  show ?thesis
    unfolding ndgrid_def by (induction z) (simp_all add: inner)
qed

lemma z_of_ndgrid: "list_all (\<lambda>p. z_of p = z0) (ndgrid x y [z0])"
  by (simp add: ndgrid_def list_all_iff z_of_def)

text \<open>
  Claim C6. The grid built in \<open>plot_fields\<close> from x = linspace(-50, 50, 100),
  y = linspace(-50, 50, 100) and the third coordinate 0 has exactly 10000 points, and
  the third coordinate of every point is 0.
\<close>

theorem plot_fields_grid:
  "length (xyz (plot_fields mu_0 A_dipole A_loop c)) = 10000
   \<and> list_all (\<lambda>p. z_of p = 0) (xyz (plot_fields mu_0 A_dipole A_loop c))"
  by (simp add: plot_fields_def Let_def length_ndgrid length_linspace z_of_ndgrid)

section \<open>The shared orientation array\<close>

text \<open>
  What the in-place normalisation does to the array: its norm vanishes only at the zero
  vector, the result is never the zero vector, and normalising a second time changes
  nothing.
\<close>

lemma norm_zero_iff:
  fixes a b c :: real
  shows "sqrt (a\<^sup>2 + b\<^sup>2 + c\<^sup>2) = 0 \<longleftrightarrow> a = 0 \<and> b = 0 \<and> c = 0"
proof -
  have "a\<^sup>2 + b\<^sup>2 + c\<^sup>2 = 0 \<longleftrightarrow> a = 0 \<and> b = 0 \<and> c = 0"
    by (simp add: add_nonneg_eq_0_iff)
  then show ?thesis
    by simp
qed

lemma set_orientation_numbers:
  "set_orientation (Num a, Num b, Num c) =
     (if a = 0 \<and> b = 0 \<and> c = 0 then (NaN, NaN, NaN)
      else (Num (a / sqrt (a\<^sup>2 + b\<^sup>2 + c\<^sup>2)), Num (b / sqrt (a\<^sup>2 + b\<^sup>2 + c\<^sup>2)),
            Num (c / sqrt (a\<^sup>2 + b\<^sup>2 + c\<^sup>2))))"
  using norm_zero_iff [of a b c] by (simp add: Let_def)

lemma set_orientation_never_zero: "set_orientation v \<noteq> (Num 0, Num 0, Num 0)"
proof (cases v rule: set_orientation.cases)
  case (1 a b c)
  let ?n = "sqrt (a\<^sup>2 + b\<^sup>2 + c\<^sup>2)"
  show ?thesis
  proof (cases "a = 0 \<and> b = 0 \<and> c = 0")
    case True
    with 1 show ?thesis
      by (simp add: Let_def)
  next
    case False
    then have n: "?n \<noteq> 0"
      by (simp only: norm_zero_iff not_False_eq_True)
    have unit: "set_orientation (Num a, Num b, Num c) = (Num (a / ?n), Num (b / ?n), Num (c / ?n))"
      by (subst set_orientation_numbers) (rule if_not_P [OF False])
    show ?thesis
    proof
      assume "set_orientation v = (Num 0, Num 0, Num 0)"
      with 1 unit have "a / ?n = 0" and "b / ?n = 0" and "c / ?n = 0"
        by simp_all
      then have "a = 0 \<or> ?n = 0" and "b = 0 \<or> ?n = 0" and "c = 0 \<or> ?n = 0"
        by (simp_all only: divide_eq_0_iff)
      with n have "a = 0 \<and> b = 0 \<and> c = 0"
        by blast
      with False show False ..
    qed
  qed
qed simp_all

lemma set_orientation_idem: "set_orientation (set_orientation v) = set_orientation v"
proof (cases v rule: set_orientation.cases)
  case (1 a b c)
  let ?s = "a\<^sup>2 + b\<^sup>2 + c\<^sup>2"
  let ?n = "sqrt ?s"
  show ?thesis
  proof (cases "?n = 0")
    case True
    with 1 show ?thesis by (simp add: Let_def)
  next
    case False
    then have s: "?s \<noteq> 0"
      by simp
    have "(a / ?n)\<^sup>2 + (b / ?n)\<^sup>2 + (c / ?n)\<^sup>2 = a\<^sup>2 / ?s + b\<^sup>2 / ?s + c\<^sup>2 / ?s"
      by (simp add: power_divide)
    also have "\<dots> = ?s / ?s"
      by (simp only: add_divide_distrib)
    also have "\<dots> = 1"
      using s by simp
    finally have "sqrt ((a / ?n)\<^sup>2 + (b / ?n)\<^sup>2 + (c / ?n)\<^sup>2) = 1"
      by simp
    with 1 False show ?thesis
      by (simp add: Let_def)
  qed
qed simp_all

lemma set_orientation_z_axis:
  assumes "0 < c"
  shows "set_orientation (Num 0, Num 0, Num c) = (Num 0, Num 0, Num 1)"
  using assms by (simp add: Let_def)

lemma set_orientation_diag:
  "set_orientation (Num 1, Num 0, Num 1) = (Num (1 / sqrt 2), Num 0, Num (1 / sqrt 2))"
  by (simp add: Let_def)

lemma set_orientation_zero: "set_orientation (Num 0, Num 0, Num 0) = (NaN, NaN, NaN)"
  by (simp add: Let_def)

section \<open>Changing one control\<close>

text \<open>
  Claim C8, as stated, fails for the loop. Moving only \<open>orientation_x\<close> from its
  default 0 to 1 gives the parameter set with orientation (1, 0, 1), but the loop
  constructor is not called with that vector: it is called with the array the dipole
  constructor has already normalised, so its third component is no longer the 1 of the
  previous run and its first component is not the new control value. Moving only
  \<open>orientation_z\<close> from 1 to 1/2 leaves every argument of the loop constructor as it
  was, the updated value never reaching it.
\<close>

theorem loop_orientation_counterexample:
  "\<forall>(mu_0::real) (A_dipole::MagneticDipoleWholeSpace \<Rightarrow> vec3 list \<Rightarrow> vec3 list)
     (A_loop::CircularLoopWholeSpace \<Rightarrow> vec3 list \<Rightarrow> vec3 list).
     loop_orientation (loop_args (plot_fields mu_0 A_dipole A_loop default_controls))
       = (Num 0, Num 0, Num 1)
   \<and> loop_orientation
         (loop_args (plot_fields mu_0 A_dipole A_loop (default_controls\<lparr>orientation_x := 1\<rparr>)))
       = (Num (1 / sqrt 2), Num 0, Num (1 / sqrt 2))
   \<and> loop_orientation
         (loop_args (plot_fields mu_0 A_dipole A_loop (default_controls\<lparr>orientation_x := 1\<rparr>)))
       \<noteq> (Num 1, Num 0, Num 1)
   \<and> loop_args (plot_fields mu_0 A_dipole A_loop (default_controls\<lparr>orientation_z := 1 / 2\<rparr>))
       = loop_args (plot_fields mu_0 A_dipole A_loop default_controls)"
proof -
  have z: "set_orientation (Num 0, Num 0, Num 1) = (Num 0, Num 0, Num 1)"
    by (simp add: set_orientation_z_axis del: set_orientation.simps)
  have h: "set_orientation (Num 0, Num 0, Num (1 / 2)) = (Num 0, Num 0, Num 1)"
    by (simp add: set_orientation_z_axis del: set_orientation.simps)
  have "sqrt 2 \<noteq> 1"
    by simp
  with z h set_orientation_diag show ?thesis
    by (simp add: plot_fields_def Let_def default_controls_def np_r_def del: set_orientation.simps)
qed

text \<open>
  Claim C8, amended. Every run calls the two \<open>vector_potential\<close> methods, on the two
  sources it has just built and at the same points as every other run. When one control
  changes, \<open>moment\<close>, \<open>current\<close>, \<open>radius\<close> and the location controls update exactly
  the constructor argument they feed, and every other argument of both constructors and
  every other attribute of both evaluated sources is as in the previous run. An
  orientation control updates the one component of the orientation the dipole
  constructor receives; the loop constructor and both evaluator calls see that array as
  normalised in place by the library, and nothing but the orientation changes.
\<close>

theorem single_control_change_run:
  fixes c :: controls
    and mu_0 :: real
    and A_dipole :: "MagneticDipoleWholeSpace \<Rightarrow> vec3 list \<Rightarrow> vec3 list"
    and A_loop :: "CircularLoopWholeSpace \<Rightarrow> vec3 list \<Rightarrow> vec3 list"
  defines "P \<equiv> plot_fields mu_0 A_dipole A_loop"
  shows
   "evaluator_calls (P c)
        = [Dipole_vector_potential (dipole (P c)) (xyz (P c)),
           Loop_vector_potential (loop (P c)) (xyz (P c))]
    \<and> xyz (P c') = xyz (P c)
    \<and> dipole_args (P (c\<lparr>moment := m\<rparr>)) = (dipole_args (P c))\<lparr>dipole_moment := m\<rparr>
      \<and> dipole (P (c\<lparr>moment := m\<rparr>)) = (dipole (P c))\<lparr>dipole_moment := m\<rparr>
      \<and> loop_args (P (c\<lparr>moment := m\<rparr>)) = loop_args (P c)
      \<and> loop (P (c\<lparr>moment := m\<rparr>)) = loop (P c)
    \<and> dipole_args (P (c\<lparr>current := i\<rparr>)) = dipole_args (P c)
      \<and> dipole (P (c\<lparr>current := i\<rparr>)) = dipole (P c)
      \<and> loop_args (P (c\<lparr>current := i\<rparr>)) = (loop_args (P c))\<lparr>loop_current := i\<rparr>
      \<and> loop (P (c\<lparr>current := i\<rparr>)) = (loop (P c))\<lparr>loop_current := i\<rparr>
    \<and> dipole_args (P (c\<lparr>radius := r\<rparr>)) = dipole_args (P c)
      \<and> dipole (P (c\<lparr>radius := r\<rparr>)) = dipole (P c)
      \<and> loop_args (P (c\<lparr>radius := r\<rparr>)) = (loop_args (P c))\<lparr>loop_radius := r\<rparr>
      \<and> loop (P (c\<lparr>radius := r\<rparr>)) = (loop (P c))\<lparr>loop_radius := r\<rparr>
    \<and> dipole_args (P (c\<lparr>location_x := v\<rparr>))
          = (dipole_args (P c))\<lparr>dipole_location := (v, location_y c, location_z c)\<rparr>
      \<and> dipole (P (c\<lparr>location_x := v\<rparr>))
          = (dipole (P c))\<lparr>dipole_location := (v, location_y c, location_z c)\<rparr>
      \<and> loop_args (P (c\<lparr>location_x := v\<rparr>))
          = (loop_args (P c))\<lparr>loop_location := (v, location_y c, location_z c)\<rparr>
      \<and> loop (P (c\<lparr>location_x := v\<rparr>))
          = (loop (P c))\<lparr>loop_location := (v, location_y c, location_z c)\<rparr>
    \<and> dipole_args (P (c\<lparr>location_y := v\<rparr>))
          = (dipole_args (P c))\<lparr>dipole_location := (location_x c, v, location_z c)\<rparr>
      \<and> dipole (P (c\<lparr>location_y := v\<rparr>))
          = (dipole (P c))\<lparr>dipole_location := (location_x c, v, location_z c)\<rparr>
      \<and> loop_args (P (c\<lparr>location_y := v\<rparr>))
          = (loop_args (P c))\<lparr>loop_location := (location_x c, v, location_z c)\<rparr>
      \<and> loop (P (c\<lparr>location_y := v\<rparr>))
          = (loop (P c))\<lparr>loop_location := (location_x c, v, location_z c)\<rparr>
    \<and> dipole_args (P (c\<lparr>location_z := v\<rparr>))
          = (dipole_args (P c))\<lparr>dipole_location := (location_x c, location_y c, v)\<rparr>
      \<and> dipole (P (c\<lparr>location_z := v\<rparr>))
          = (dipole (P c))\<lparr>dipole_location := (location_x c, location_y c, v)\<rparr>
      \<and> loop_args (P (c\<lparr>location_z := v\<rparr>))
          = (loop_args (P c))\<lparr>loop_location := (location_x c, location_y c, v)\<rparr>
      \<and> loop (P (c\<lparr>location_z := v\<rparr>))
          = (loop (P c))\<lparr>loop_location := (location_x c, location_y c, v)\<rparr>
    \<and> dipole_args (P (c\<lparr>orientation_x := v\<rparr>))
          = (dipole_args (P c))\<lparr>dipole_orientation := np_r v (orientation_y c) (orientation_z c)\<rparr>
      \<and> dipole (P (c\<lparr>orientation_x := v\<rparr>))
          = (dipole (P c))\<lparr>dipole_orientation :=
              set_orientation (np_r v (orientation_y c) (orientation_z c))\<rparr>
      \<and> loop_args (P (c\<lparr>orientation_x := v\<rparr>))
          = (loop_args (P c))\<lparr>loop_orientation :=
              set_orientation (np_r v (orientation_y c) (orientation_z c))\<rparr>
      \<and> loop (P (c\<lparr>orientation_x := v\<rparr>))
          = (loop (P c))\<lparr>loop_orientation :=
              set_orientation (np_r v (orientation_y c) (orientation_z c))\<rparr>
    \<and> dipole_args (P (c\<lparr>orientation_y := v\<rparr>))
          = (dipole_args (P c))\<lparr>dipole_orientation := np_r (orientation_x c) v (orientation_z c)\<rparr>
      \<and> dipole (P (c\<lparr>orientation_y := v\<rparr>))
          = (dipole (P c))\<lparr>dipole_orientation :=
              set_orientation (np_r (orientation_x c) v (orientation_z c))\<rparr>
      \<and> loop_args (P (c\<lparr>orientation_y := v\<rparr>))
          = (loop_args (P c))\<lparr>loop_orientation :=
              set_orientation (np_r (orientation_x c) v (orientation_z c))\<rparr>
      \<and> loop (P (c\<lparr>orientation_y := v\<rparr>))
          = (loop (P c))\<lparr>loop_orientation :=
              set_orientation (np_r (orientation_x c) v (orientation_z c))\<rparr>
    \<and> dipole_args (P (c\<lparr>orientation_z := v\<rparr>))
          = (dipole_args (P c))\<lparr>dipole_orientation := np_r (orientation_x c) (orientation_y c) v\<rparr>
      \<and> dipole (P (c\<lparr>orientation_z := v\<rparr>))
          = (dipole (P c))\<lparr>dipole_orientation :=
              set_orientation (np_r (orientation_x c) (orientation_y c) v)\<rparr>
      \<and> loop_args (P (c\<lparr>orientation_z := v\<rparr>))
          = (loop_args (P c))\<lparr>loop_orientation :=
              set_orientation (np_r (orientation_x c) (orientation_y c) v)\<rparr>
      \<and> loop (P (c\<lparr>orientation_z := v\<rparr>))
          = (loop (P c))\<lparr>loop_orientation :=
              set_orientation (np_r (orientation_x c) (orientation_y c) v)\<rparr>"
  unfolding P_def by (simp add: plot_fields_def Let_def set_orientation_idem)

section \<open>The sliders\<close>

text \<open>
  Claim C9. The sliders have the documented ranges and steps: \<open>moment\<close> ranges over
  [-1, 3], \<open>radius\<close> over [1, 40] with step 1, \<open>inclination\<close> over [0, 67] with step 1
  and \<open>declination\<close> over [0, 90].
\<close>

theorem documented_slider_ranges:
  "map_of vector_potential_app ''moment''
     = Some (Some \<lparr>slider_min = -1, slider_max = 3, slider_step = 1\<rparr>)
   \<and> map_of vector_potential_app ''radius''
     = Some (Some \<lparr>slider_min = 1, slider_max = 40, slider_step = 1\<rparr>)
   \<and> map_of total_field_app ''inclination''
     = Some (Some \<lparr>slider_min = 0, slider_max = 67, slider_step = 1\<rparr>)
   \<and> map_of total_field_app ''declination''
     = Some (Some \<lparr>slider_min = 0, slider_max = 90, slider_step = 1 / 10\<rparr>)"
  by (simp add: vector_potential_app_def total_field_app_def interactive_def)

text \<open>
  Claim C10, as stated, fails for the loop: whatever the controls are, the loop
  constructor never receives the zero vector, since the array it is handed has been
  normalised in place by the dipole constructor.
\<close>

theorem loop_never_receives_zero_counterexample:
  "\<not> (\<exists>(mu_0::real) (A_dipole::MagneticDipoleWholeSpace \<Rightarrow> vec3 list \<Rightarrow> vec3 list)
        (A_loop::CircularLoopWholeSpace \<Rightarrow> vec3 list \<Rightarrow> vec3 list) c.
        admissible c
        \<and> dipole_orientation (dipole_args (plot_fields mu_0 A_dipole A_loop c)) = (Num 0, Num 0, Num 0)
        \<and> loop_orientation (loop_args (plot_fields mu_0 A_dipole A_loop c)) = (Num 0, Num 0, Num 0))"
  by (simp add: plot_fields_def Let_def set_orientation_never_zero)

text \<open>
  Claim C10, amended. The setting with all three orientation controls at 0 (the defaults
  with \<open>orientation_z\<close> moved to 0) is admissible, each orientation slider ranging over
  [0, 1], and with it the orientation handed to the dipole constructor is the zero
  vector; the loop constructor is handed the same array after the dipole constructor has
  divided it by its zero norm, which holds three NaNs.
\<close>

theorem zero_orientation_reaches_dipole:
  "admissible (default_controls\<lparr>orientation_z := 0\<rparr>)
   \<and> map_of vector_potential_app ''orientation_x''
       = Some (Some \<lparr>slider_min = 0, slider_max = 1, slider_step = 1 / 10\<rparr>)
   \<and> map_of vector_potential_app ''orientation_y''
       = Some (Some \<lparr>slider_min = 0, slider_max = 1, slider_step = 1 / 10\<rparr>)
   \<and> map_of vector_potential_app ''orientation_z''
       = Some (Some \<lparr>slider_min = 0, slider_max = 1, slider_step = 1 / 10\<rparr>)
   \<and> dipole_orientation
         (dipole_args (plot_fields mu_0 A_dipole A_loop (default_controls\<lparr>orientation_z := 0\<rparr>)))
       = (Num 0, Num 0, Num 0)
   \<and> loop_orientation
         (loop_args (plot_fields mu_0 A_dipole A_loop (default_controls\<lparr>orientation_z := 0\<rparr>)))
       = (NaN, NaN, NaN)"
  by (simp add: admissible_def control_values_def vector_potential_app_def interactive_def
      slider_offers_def default_controls_def plot_fields_def Let_def np_r_def)

end
